theory Spec2Isabelle
  imports Main "HOL-Library.Word"
begin

section \<open>Values of the Go program\<close>

text \<open>
  Go's \<^verbatim>\<open>int\<close> (64 bits on the usual targets) and \<^verbatim>\<open>time.Duration\<close> (an
  \<^verbatim>\<open>int64\<close> count of nanoseconds) are 64-bit words. Go compares them as signed
  numbers, so every comparison of the source reads the word with \<open>sint\<close>.
\<close>

type_synonym go_int = "64 word"
type_synonym Duration = "64 word"

text \<open>The constants of Go's package \<^verbatim>\<open>time\<close> that the source multiplies with.\<close>

definition Nanosecond :: Duration where
  "Nanosecond = 1"

definition Microsecond :: Duration where
  "Microsecond = 1000 * Nanosecond"

definition Millisecond :: Duration where
  "Millisecond = 1000 * Microsecond"

definition Second :: Duration where
  "Second = 1000 * Millisecond"

definition Minute :: Duration where
  "Minute = 60 * Second"

subsection \<open>Errors\<close>

text \<open>
  An \<^verbatim>\<open>error\<close> value of the program is made by \<^verbatim>\<open>errors.New\<close> (a message), by
  \<^verbatim>\<open>fmt.Errorf\<close> with one \<^verbatim>\<open>%w\<close> verb (a message and the error it wraps), or it
  comes out of the driver (opaque to this package). Go's \<^verbatim>\<open>nil\<close> error is \<open>None\<close> of
  \<open>error option\<close>.
\<close>

datatype error =
    ErrorString string
  | WrapError string error
  | DriverError string

definition ErrNilClient :: error where
  "ErrNilClient = ErrorString ''redis client is nil''"

definition ErrInvalidConfig :: error where
  "ErrInvalidConfig = ErrorString ''invalid redis configuration''"

text \<open>The method \<^verbatim>\<open>Error()\<close>: the message of an error.\<close>

fun Error :: "error \<Rightarrow> string" where
  "Error (ErrorString s) = s"
| "Error (WrapError msg e) = msg"
| "Error (DriverError s) = s"

text \<open>
  \<^verbatim>\<open>errors.Is(err, target)\<close>: \<open>err\<close> or an error in its chain of wrapped errors is
  \<open>target\<close>.
\<close>

fun errors_Is :: "error \<Rightarrow> error \<Rightarrow> bool" where
  "errors_Is (WrapError msg e) target = (WrapError msg e = target \<or> errors_Is e target)"
| "errors_Is (ErrorString s) target = (ErrorString s = target)"
| "errors_Is (DriverError s) target = (DriverError s = target)"

text \<open>
  \<^verbatim>\<open>fmt.Errorf("%w<rest>", e)\<close> for a format that is \<^verbatim>\<open>%w\<close> followed by plain
  text: the message is \<open>e\<close>'s message followed by the text, and the result wraps \<open>e\<close>.
\<close>

definition Errorf_w :: "string \<Rightarrow> error \<Rightarrow> error" where
  "Errorf_w rest e = WrapError (Error e @ rest) e"

subsection \<open>The driver's options and the configuration\<close>

text \<open>
  \<^verbatim>\<open>redis.Options\<close> of the driver, with the fields that \<^verbatim>\<open>NewClient\<close> sets. The
  fields that \<^verbatim>\<open>Config\<close> has under the same name are written \<open>Options.Password\<close>
  and so on.
\<close>

record Options =
  Addr :: string
  Password :: string
  DB :: go_int
  MaxRetries :: go_int
  MinRetryBackoff :: Duration
  MaxRetryBackoff :: Duration
  DialTimeout :: Duration
  ReadTimeout :: Duration
  WriteTimeout :: Duration
  PoolSize :: go_int
  MinIdleConns :: go_int
  ConnMaxIdleTime :: Duration
  ConnMaxLifetime :: Duration

record Config =
  Host :: string
  Port :: string
  Password :: string
  DB :: go_int
  SocketKeepalive :: bool
  HealthCheckInterval :: Duration
  SocketTimeout :: Duration
  SocketConnectTimeout :: Duration
  MaxRetries :: go_int
  MinRetryBackoff :: Duration
  MaxRetryBackoff :: Duration
  PoolSize :: go_int
  MinIdleConns :: go_int
  ConnMaxIdleTime :: Duration
  ConnMaxLifetime :: Duration
  DefaultTimeout :: Duration

text \<open>
  The value of a composite literal \<^verbatim>\<open>Config{}\<close>: every field that a literal leaves out
  has Go's zero value. The literals of the test file are updates of it.
\<close>

definition zero_Config :: Config where
  "zero_Config =
    \<lparr> Host = '''', Port = '''', Password = '''', DB = 0, SocketKeepalive = False,
      HealthCheckInterval = 0, SocketTimeout = 0, SocketConnectTimeout = 0, MaxRetries = 0,
      MinRetryBackoff = 0, MaxRetryBackoff = 0, PoolSize = 0, MinIdleConns = 0,
      ConnMaxIdleTime = 0, ConnMaxLifetime = 0, DefaultTimeout = 0 \<rparr>"

definition DefaultConfig :: Config where
  "DefaultConfig =
    zero_Config
    \<lparr> Host := ''localhost'',
      Port := ''6379'',
      SocketKeepalive := True,
      HealthCheckInterval := 5 * Second,
      SocketTimeout := 5 * Second,
      SocketConnectTimeout := 3 * Second,
      MaxRetries := 5,
      MinRetryBackoff := 100 * Millisecond,
      MaxRetryBackoff := 100 * Millisecond,
      PoolSize := 10,
      MinIdleConns := 2,
      ConnMaxIdleTime := 5 * Minute,
      ConnMaxLifetime := 30 * Minute,
      DefaultTimeout := 5 * Second \<rparr>"

section \<open>Config.Validate\<close>

text \<open>
  The method has a pointer receiver, so it could write to the configuration it is called
  on. The model takes the configuration the receiver points to and returns the error
  (\<open>None\<close> for \<^verbatim>\<open>nil\<close>) together with the configuration as the call leaves it. The
  four checks are in the order of the source, and the first that fails returns.
\<close>

definition Validate :: "Config \<Rightarrow> error option \<times> Config" where
  "Validate c =
    (if Host c = '''' then
       (Some (Errorf_w '': host is required'' ErrInvalidConfig), c)
     else if Port c = '''' then
       (Some (Errorf_w '': port is required'' ErrInvalidConfig), c)
     else if sint (PoolSize c) \<le> 0 then
       (Some (Errorf_w '': pool size must be greater than 0'' ErrInvalidConfig), c)
     else if sint (DefaultTimeout c) \<le> 0 then
       (Some (Errorf_w '': default timeout must be greater than 0'' ErrInvalidConfig), c)
     else (None, c))"

section \<open>The driver, as this package sees it\<close>

text \<open>
  The driver \<^verbatim>\<open>github.com/redis/go-redis/v9\<close> is not part of the repository, and the
  repository does not say which version of it is used. What the package uses of it is
  modelled here. A call of \<^verbatim>\<open>redis.NewClient\<close> either returns a handle (never
  \<^verbatim>\<open>nil\<close>) or panics: the driver allocates its pool from the options and does not
  return for every pool size. Which options it panics on is the driver's own matter, so
  \<^verbatim>\<open>NewClient\<close> below takes the driver's constructor as an argument, and the theorems
  about it hold for every constructor. \<open>RedisClient opt\<close> is the handle that a call
  with the options \<open>opt\<close> made; the settings that the driver derives from them (it
  replaces zero fields by defaults of its own) are not part of the model.
  \<^verbatim>\<open>context.WithTimeout\<close> puts a timeout on a context; and \<^verbatim>\<open>Ping(ctx).Err()\<close> is
  a call that the driver records and answers. The answer is the driver's own: any function
  of the calls made so far and of the call at hand.
\<close>

datatype panic = NilPointerDereference | DriverPanic

datatype redis_Client = RedisClient Options

type_synonym constructor = "Options \<Rightarrow> panic + redis_Client"

text \<open>
  A constructor for the examples: it panics when the pool size or the minimum idle count
  is above a limit, and returns the handle otherwise. The limit of the real constructor
  depends on the driver's version and on the platform: Go cannot make a slice of more than
  \<open>2 ^ 45\<close> pointers on a 64-bit target, and a driver that keeps these counts in 32
  bits refuses what does not fit. The examples use the limit \<open>2 ^ 31 - 1 = 2147483647\<close>, with pool
  sizes of 10, 20 and \<open>2 ^ 63 - 1\<close> only, where these limits agree.
\<close>

definition redis_NewClient :: "int \<Rightarrow> constructor" where
  "redis_NewClient limit opt =
    (if limit < sint (Options.PoolSize opt) \<or> limit < sint (Options.MinIdleConns opt)
     then Inl DriverPanic
     else Inr (RedisClient opt))"

datatype Context = Background | WithTimeout Context Duration

datatype call = PingCall redis_Client Context

record driver =
  calls :: "call list"
  answer :: "call list \<Rightarrow> call \<Rightarrow> error option"

definition Ping :: "redis_Client \<Rightarrow> Context \<Rightarrow> driver \<Rightarrow> error option \<times> driver" where
  "Ping rdb ctx d =
    (answer d (calls d) (PingCall rdb ctx), d\<lparr>calls := calls d @ [PingCall rdb ctx]\<rparr>)"

section \<open>Client\<close>

text \<open>
  Both fields of \<^verbatim>\<open>Client\<close> are pointers: the embedded \<^verbatim>\<open>*redis.Client\<close> and
  \<^verbatim>\<open>config *Config\<close>. A \<^verbatim>\<open>nil\<close> pointer is \<open>None\<close>. Reading a field through a
  \<^verbatim>\<open>nil\<close> pointer panics.
\<close>

record Client =
  Client :: "redis_Client option"
  config :: "Config option"

text \<open>The literal \<^verbatim>\<open>&redis.Options{...}\<close> that \<^verbatim>\<open>NewClient\<close> builds from \<open>cfg\<close>.\<close>

definition NewClient_Options :: "Config \<Rightarrow> Options" where
  "NewClient_Options cfg =
    \<lparr> Addr = Host cfg @ '':'' @ Port cfg,
      Password = Config.Password cfg,
      DB = Config.DB cfg,
      MaxRetries = Config.MaxRetries cfg,
      MinRetryBackoff = Config.MinRetryBackoff cfg,
      MaxRetryBackoff = Config.MaxRetryBackoff cfg,
      DialTimeout = SocketConnectTimeout cfg,
      ReadTimeout = SocketTimeout cfg,
      WriteTimeout = SocketTimeout cfg,
      PoolSize = Config.PoolSize cfg,
      MinIdleConns = Config.MinIdleConns cfg,
      ConnMaxIdleTime = Config.ConnMaxIdleTime cfg,
      ConnMaxLifetime = Config.ConnMaxLifetime cfg \<rparr>"

text \<open>
  \<^verbatim>\<open>NewClient(cfg)\<close> returns a pair \<^verbatim>\<open>(*Client, error)\<close> (\<open>Inr\<close>), or panics
  (\<open>Inl\<close>) when the driver's constructor \<open>new\<close> does. A \<^verbatim>\<open>nil\<close> argument is
  \<open>None\<close>. The configuration read after the call of \<^verbatim>\<open>Validate\<close> is the one that
  call leaves behind. The constructor is called only after \<^verbatim>\<open>Validate\<close> has returned
  \<^verbatim>\<open>nil\<close>.
\<close>

definition NewClient ::
  "constructor \<Rightarrow> Config option \<Rightarrow> panic + (Client option \<times> error option)" where
  "NewClient new cfg0 =
    (let cfg = (case cfg0 of None \<Rightarrow> DefaultConfig | Some c \<Rightarrow> c);
         (err, cfg') = Validate cfg
     in case err of
          Some e \<Rightarrow> Inr (None, Some e)
        | None \<Rightarrow>
            (case new (NewClient_Options cfg') of
               Inl p \<Rightarrow> Inl p
             | Inr rdb \<Rightarrow> Inr (Some \<lparr> Client = Some rdb, config = Some cfg' \<rparr>, None)))"

text \<open>
  \<^verbatim>\<open>HealthCheck\<close> returns an error (\<open>Inr\<close>) or panics (\<open>Inl\<close>), and leaves the
  driver with the calls it made. \<^verbatim>\<open>c.config.DefaultTimeout\<close> is read before the context
  is made, so a \<^verbatim>\<open>nil\<close> configuration panics before any call.
\<close>

definition HealthCheck :: "Client \<Rightarrow> driver \<Rightarrow> (panic + error option) \<times> driver" where
  "HealthCheck c d =
    (case Client c of
       None \<Rightarrow> (Inr (Some ErrNilClient), d)
     | Some rdb \<Rightarrow>
         (case config c of
            None \<Rightarrow> (Inl NilPointerDereference, d)
          | Some cfg \<Rightarrow>
              (let ctx = WithTimeout Background (DefaultTimeout cfg);
                   (err, d') = Ping rdb ctx d
               in (Inr err, d'))))"

definition GetConfig :: "Client \<Rightarrow> Config option" where
  "GetConfig c = config c"

section \<open>Facts about errors and durations\<close>

lemma Errorf_w_ErrInvalidConfig:
  "Errorf_w rest ErrInvalidConfig =
     WrapError (''invalid redis configuration'' @ rest) ErrInvalidConfig"
  by (simp add: Errorf_w_def ErrInvalidConfig_def)

lemma errors_Is_refl: "errors_Is e e"
  by (cases e) simp_all

lemma errors_Is_wrapped: "errors_Is (WrapError msg e) e"
  by (simp add: errors_Is_refl)

lemma sint_Second: "sint Second = 1000000000"
  by (simp add: Second_def Millisecond_def Microsecond_def Nanosecond_def)

lemma sint_Millisecond: "sint Millisecond = 1000000"
  by (simp add: Millisecond_def Microsecond_def Nanosecond_def)

lemma Validate_frame: "snd (Validate c) = c"
  by (simp add: Validate_def)

lemma Validate_accepts_iff:
  "fst (Validate c) = None \<longleftrightarrow>
     Host c \<noteq> '''' \<and> Port c \<noteq> '''' \<and> 0 < sint (PoolSize c) \<and> 0 < sint (DefaultTimeout c)"
  by (auto simp: Validate_def)

lemma Validate_DefaultConfig: "fst (Validate DefaultConfig) = None"
  by (simp add: Validate_accepts_iff DefaultConfig_def zero_Config_def sint_Second
      Second_def Millisecond_def Microsecond_def Nanosecond_def)

lemma Validate_error_wraps:
  "fst (Validate c) = Some e \<Longrightarrow> errors_Is e ErrInvalidConfig"
  by (auto simp: Validate_def Errorf_w_def errors_Is_refl split: if_splits)

lemma sint_Minute: "sint Minute = 60000000000"
  by (simp add: Minute_def Second_def Millisecond_def Microsecond_def Nanosecond_def)

section \<open>What Validate accepts\<close>

text \<open>
  C1, as amended. For every configuration that \<^verbatim>\<open>Validate\<close> accepts (it returns
  \<^verbatim>\<open>nil\<close>), the host and the port are non-empty, so the address \<^verbatim>\<open>host:port\<close> is
  too, the pool size is strictly greater than 0 and the default timeout is strictly greater
  than 0. \<^verbatim>\<open>Validate\<close> never reads \<^verbatim>\<open>MinIdleConns\<close>, so nothing relates the minimum
  idle count to the pool size.
\<close>

theorem Validate_accepted_invariants:
  "fst (Validate c) = None \<Longrightarrow>
     Host c \<noteq> '''' \<and> Port c \<noteq> '''' \<and> Host c @ '':'' @ Port c \<noteq> '''' \<and>
     0 < sint (PoolSize c) \<and> 0 < sint (DefaultTimeout c)"
  by (simp add: Validate_accepts_iff)

text \<open>The default configuration is accepted and has the three properties.\<close>

theorem Validate_accepted_invariants_witness:
  "fst (Validate DefaultConfig) = None \<and>
   Host DefaultConfig \<noteq> '''' \<and> Port DefaultConfig \<noteq> '''' \<and>
   0 < sint (PoolSize DefaultConfig) \<and> 0 < sint (DefaultTimeout DefaultConfig)"
  using Validate_accepted_invariants [of DefaultConfig] Validate_DefaultConfig by simp

text \<open>
  C1 as stated fails: the configuration with host \<^verbatim>\<open>localhost\<close>, port \<^verbatim>\<open>6379\<close>,
  pool size 1, default timeout 5s and a minimum idle count of 5 is accepted, and its
  minimum idle count is above its pool size.
\<close>

theorem Validate_min_idle_counterexample:
  "fst (Validate (zero_Config
      \<lparr>Host := ''localhost'', Port := ''6379'', PoolSize := 1, MinIdleConns := 5,
       DefaultTimeout := 5 * Second\<rparr>)) = None \<and>
   \<not> sint (MinIdleConns (zero_Config
      \<lparr>Host := ''localhost'', Port := ''6379'', PoolSize := 1, MinIdleConns := 5,
       DefaultTimeout := 5 * Second\<rparr>))
     \<le> sint (PoolSize (zero_Config
      \<lparr>Host := ''localhost'', Port := ''6379'', PoolSize := 1, MinIdleConns := 5,
       DefaultTimeout := 5 * Second\<rparr>))"
  by (simp add: Validate_accepts_iff sint_Second zero_Config_def Second_def Millisecond_def
      Microsecond_def Nanosecond_def)

section \<open>What Validate rejects\<close>

text \<open>
  C2. For every configuration whose host is empty, \<^verbatim>\<open>Validate\<close> fails with the error
  whose message is \<^verbatim>\<open>invalid redis configuration: host is required\<close> and that wraps
  \<^verbatim>\<open>ErrInvalidConfig\<close>, whatever the other fields are.
\<close>

theorem Validate_empty_host:
  "Host c = '''' \<Longrightarrow>
     fst (Validate c) =
       Some (WrapError ''invalid redis configuration: host is required'' ErrInvalidConfig) \<and>
     errors_Is (WrapError ''invalid redis configuration: host is required'' ErrInvalidConfig)
       ErrInvalidConfig"
  by (simp add: Validate_def Errorf_w_ErrInvalidConfig errors_Is_refl)

text \<open>The literal of the test "empty host".\<close>

theorem Validate_empty_host_witness:
  "Host (zero_Config \<lparr>Port := ''6379'', PoolSize := 10, DefaultTimeout := 5 * Second\<rparr>) = '''' \<and>
   fst (Validate (zero_Config \<lparr>Port := ''6379'', PoolSize := 10, DefaultTimeout := 5 * Second\<rparr>)) =
     Some (WrapError ''invalid redis configuration: host is required'' ErrInvalidConfig)"
  using Validate_empty_host
    [of "zero_Config \<lparr>Port := ''6379'', PoolSize := 10, DefaultTimeout := 5 * Second\<rparr>"]
  by (simp add: zero_Config_def)

text \<open>
  C3, as amended. For every configuration whose pool size is less than or equal to 0,
  \<^verbatim>\<open>Validate\<close> fails with an error that wraps \<^verbatim>\<open>ErrInvalidConfig\<close>; when the host
  and the port are non-empty, that error is the one about the pool size. The checks of the
  host and of the port come first in the source.
\<close>

theorem Validate_pool_size:
  "sint (PoolSize c) \<le> 0 \<Longrightarrow>
     (\<exists>e. fst (Validate c) = Some e \<and> errors_Is e ErrInvalidConfig) \<and>
     (Host c \<noteq> '''' \<and> Port c \<noteq> '''' \<longrightarrow>
        fst (Validate c) =
          Some (WrapError ''invalid redis configuration: pool size must be greater than 0''
            ErrInvalidConfig))"
  by (simp add: Validate_def Errorf_w_ErrInvalidConfig errors_Is_refl)

text \<open>The literal of the test "negative pool size".\<close>

theorem Validate_pool_size_witness:
  "sint (PoolSize (zero_Config
      \<lparr>Host := ''localhost'', Port := ''6379'', PoolSize := - 5, DefaultTimeout := 5 * Second\<rparr>)) \<le> 0 \<and>
   fst (Validate (zero_Config
      \<lparr>Host := ''localhost'', Port := ''6379'', PoolSize := - 5, DefaultTimeout := 5 * Second\<rparr>)) =
     Some (WrapError ''invalid redis configuration: pool size must be greater than 0''
       ErrInvalidConfig)"
  using Validate_pool_size
    [of "zero_Config
      \<lparr>Host := ''localhost'', Port := ''6379'', PoolSize := - 5, DefaultTimeout := 5 * Second\<rparr>"]
  by (simp add: zero_Config_def)

text \<open>
  C3 as stated fails: with an empty host and a pool size of 0, the error is the one about
  the host, not the one about the pool size.
\<close>

theorem Validate_pool_size_counterexample:
  "sint (PoolSize (zero_Config \<lparr>Port := ''6379'', DefaultTimeout := 5 * Second\<rparr>)) \<le> 0 \<and>
   fst (Validate (zero_Config \<lparr>Port := ''6379'', DefaultTimeout := 5 * Second\<rparr>)) =
     Some (WrapError ''invalid redis configuration: host is required'' ErrInvalidConfig) \<and>
   fst (Validate (zero_Config \<lparr>Port := ''6379'', DefaultTimeout := 5 * Second\<rparr>)) \<noteq>
     Some (WrapError ''invalid redis configuration: pool size must be greater than 0''
       ErrInvalidConfig)"
  by (simp add: Validate_def Errorf_w_ErrInvalidConfig zero_Config_def)

text \<open>
  C4, as amended. For every configuration whose default timeout is less than or equal to
  0, \<^verbatim>\<open>Validate\<close> fails with an error that wraps \<^verbatim>\<open>ErrInvalidConfig\<close>; when the host
  and the port are non-empty and the pool size is greater than 0, that error is the one
  about the default timeout. The checks of the host, the port and the pool size come first
  in the source.
\<close>

theorem Validate_timeout:
  "sint (DefaultTimeout c) \<le> 0 \<Longrightarrow>
     (\<exists>e. fst (Validate c) = Some e \<and> errors_Is e ErrInvalidConfig) \<and>
     (Host c \<noteq> '''' \<and> Port c \<noteq> '''' \<and> 0 < sint (PoolSize c) \<longrightarrow>
        fst (Validate c) =
          Some (WrapError ''invalid redis configuration: default timeout must be greater than 0''
            ErrInvalidConfig))"
  by (simp add: Validate_def Errorf_w_ErrInvalidConfig errors_Is_refl)

text \<open>The literal of the test "negative timeout".\<close>

theorem Validate_timeout_witness:
  "sint (DefaultTimeout (zero_Config
      \<lparr>Host := ''localhost'', Port := ''6379'', PoolSize := 10, DefaultTimeout := - 1 * Second\<rparr>)) \<le> 0 \<and>
   fst (Validate (zero_Config
      \<lparr>Host := ''localhost'', Port := ''6379'', PoolSize := 10, DefaultTimeout := - 1 * Second\<rparr>)) =
     Some (WrapError ''invalid redis configuration: default timeout must be greater than 0''
       ErrInvalidConfig)"
  using Validate_timeout
    [of "zero_Config
      \<lparr>Host := ''localhost'', Port := ''6379'', PoolSize := 10, DefaultTimeout := - 1 * Second\<rparr>"]
  by (simp add: zero_Config_def Second_def Millisecond_def Microsecond_def Nanosecond_def)

text \<open>
  C4 as stated fails: with a host, a port, and both the pool size and the default timeout
  0, the error is the one about the pool size, not the one about the default timeout.
\<close>

theorem Validate_timeout_counterexample:
  "sint (DefaultTimeout (zero_Config \<lparr>Host := ''localhost'', Port := ''6379''\<rparr>)) \<le> 0 \<and>
   fst (Validate (zero_Config \<lparr>Host := ''localhost'', Port := ''6379''\<rparr>)) =
     Some (WrapError ''invalid redis configuration: pool size must be greater than 0''
       ErrInvalidConfig) \<and>
   fst (Validate (zero_Config \<lparr>Host := ''localhost'', Port := ''6379''\<rparr>)) \<noteq>
     Some (WrapError ''invalid redis configuration: default timeout must be greater than 0''
       ErrInvalidConfig)"
  by (simp add: Validate_def Errorf_w_ErrInvalidConfig zero_Config_def)

section \<open>NewClient\<close>

lemma NewClient_accepted:
  "fst (Validate c) = None \<Longrightarrow>
     NewClient new (Some c) =
       (case new (NewClient_Options c) of
          Inl p \<Rightarrow> Inl p
        | Inr rdb \<Rightarrow> Inr (Some \<lparr> Client = Some rdb, config = Some c \<rparr>, None))"
  using Validate_frame [of c]
  by (cases "Validate c") (simp add: NewClient_def)

lemma NewClient_rejected:
  "fst (Validate c) = Some e \<Longrightarrow> NewClient new (Some c) = Inr (None, Some e)"
  by (cases "Validate c") (simp add: NewClient_def)

lemma NewClient_nil: "NewClient new None = NewClient new (Some DefaultConfig)"
  by (simp add: NewClient_def)

lemma NewClient_client_fields:
  "NewClient new cfg0 = Inr (Some cl, e) \<Longrightarrow> Client cl \<noteq> None \<and> config cl \<noteq> None"
  by (cases "Validate (case cfg0 of None \<Rightarrow> DefaultConfig | Some c \<Rightarrow> c)")
    (auto simp: NewClient_def Let_def split: option.splits sum.splits)

lemma NewClient_no_error_after_Validate:
  "fst (Validate c) = None \<Longrightarrow> NewClient new (Some c) \<noteq> Inr (cl, Some e)"
  by (simp add: NewClient_accepted split: sum.splits)

lemma redis_NewClient_DefaultConfig:
  "redis_NewClient 2147483647 (NewClient_Options DefaultConfig) =
     Inr (RedisClient (NewClient_Options DefaultConfig))"
  by (simp add: redis_NewClient_def NewClient_Options_def DefaultConfig_def zero_Config_def)

text \<open>
  C5. The configuration that \<^verbatim>\<open>DefaultConfig\<close> returns passes \<^verbatim>\<open>Validate\<close>, and its
  fields are the literal defaults: host \<^verbatim>\<open>localhost\<close>, port \<^verbatim>\<open>6379\<close>, pool size 10,
  minimum idle count 2, default timeout 5s, socket timeout 5s (which \<^verbatim>\<open>NewClient\<close> gives
  the driver as both the read and the write timeout), connect timeout 3s, 5 retries, minimum
  and maximum retry backoff 100ms each, idle lifetime 5 minutes, connection lifetime 30
  minutes, keepalive on, health-check interval 5s. Durations are in nanoseconds, read as
  signed numbers: none of the products wraps around.
\<close>

theorem DefaultConfig_valid_and_literal:
  "fst (Validate DefaultConfig) = None \<and>
   Host DefaultConfig = ''localhost'' \<and>
   Port DefaultConfig = ''6379'' \<and>
   sint (PoolSize DefaultConfig) = 10 \<and>
   sint (MinIdleConns DefaultConfig) = 2 \<and>
   sint (DefaultTimeout DefaultConfig) = 5 * 1000000000 \<and>
   sint (SocketTimeout DefaultConfig) = 5 * 1000000000 \<and>
   sint (ReadTimeout (NewClient_Options DefaultConfig)) = 5 * 1000000000 \<and>
   sint (WriteTimeout (NewClient_Options DefaultConfig)) = 5 * 1000000000 \<and>
   sint (SocketConnectTimeout DefaultConfig) = 3 * 1000000000 \<and>
   sint (MaxRetries DefaultConfig) = 5 \<and>
   sint (MinRetryBackoff DefaultConfig) = 100 * 1000000 \<and>
   sint (MaxRetryBackoff DefaultConfig) = 100 * 1000000 \<and>
   sint (ConnMaxIdleTime DefaultConfig) = 5 * 60 * 1000000000 \<and>
   sint (ConnMaxLifetime DefaultConfig) = 30 * 60 * 1000000000 \<and>
   SocketKeepalive DefaultConfig \<and>
   sint (HealthCheckInterval DefaultConfig) = 5 * 1000000000"
  by (simp add: Validate_DefaultConfig)
    (simp add: DefaultConfig_def zero_Config_def NewClient_Options_def Minute_def Second_def
      Millisecond_def Microsecond_def Nanosecond_def)

text \<open>
  C6. \<^verbatim>\<open>NewClient(nil)\<close> validates the default configuration in place of the missing
  one, and never returns an error: whatever the driver's constructor is, either it returns
  a handle for the default configuration's options, and then \<^verbatim>\<open>NewClient\<close> returns a
  client and no error, \<^verbatim>\<open>GetConfig\<close> of that client is the default configuration and
  the client holds that handle; or the constructor panics, and that panic is the only way
  for the construction to fail.
\<close>

theorem NewClient_nil_uses_DefaultConfig:
  "NewClient new None = NewClient new (Some DefaultConfig) \<and>
   (\<forall>cl e. NewClient new None \<noteq> Inr (cl, Some e)) \<and>
   (case new (NewClient_Options DefaultConfig) of
      Inr rdb \<Rightarrow>
        (\<exists>cl. NewClient new None = Inr (Some cl, None) \<and> GetConfig cl = Some DefaultConfig \<and>
           Client cl = Some rdb)
    | Inl p \<Rightarrow> NewClient new None = Inl p)"
  by (simp add: NewClient_nil NewClient_accepted NewClient_no_error_after_Validate
      Validate_DefaultConfig GetConfig_def split: sum.splits)

text \<open>
  With a constructor that returns on the default options, as the driver's does: a client
  and no error, with the default configuration.
\<close>

theorem NewClient_nil_uses_DefaultConfig_witness:
  "\<exists>cl. NewClient (redis_NewClient 2147483647) None = Inr (Some cl, None) \<and>
     GetConfig cl = Some DefaultConfig \<and>
     Client cl = Some (RedisClient (NewClient_Options DefaultConfig))"
proof -
  from NewClient_nil_uses_DefaultConfig [of "redis_NewClient 2147483647"]
  have "case redis_NewClient 2147483647 (NewClient_Options DefaultConfig) of
      Inr rdb \<Rightarrow>
        (\<exists>cl. NewClient (redis_NewClient 2147483647) None = Inr (Some cl, None) \<and>
           GetConfig cl = Some DefaultConfig \<and> Client cl = Some rdb)
    | Inl p \<Rightarrow> NewClient (redis_NewClient 2147483647) None = Inl p"
    by blast
  then show ?thesis
    by (simp add: redis_NewClient_DefaultConfig)
qed

text \<open>
  C7, as amended. For every configuration that fails \<^verbatim>\<open>Validate\<close>, \<^verbatim>\<open>NewClient\<close>
  returns a \<^verbatim>\<open>nil\<close> client and the error of \<^verbatim>\<open>Validate\<close>, whatever the driver's
  constructor is. For every configuration that passes and on whose options the driver's
  constructor returns a handle, \<^verbatim>\<open>NewClient\<close> returns a client (holding that handle and
  that configuration) and no error.
\<close>

theorem NewClient_fails_fast:
  "(fst (Validate c) \<noteq> None \<longrightarrow>
      NewClient new (Some c) = Inr (None, fst (Validate c))) \<and>
   (fst (Validate c) = None \<and> new (NewClient_Options c) = Inr rdb \<longrightarrow>
      (\<exists>cl. NewClient new (Some c) = Inr (Some cl, None) \<and> GetConfig cl = Some c \<and>
         Client cl = Some rdb))"
  by (auto simp: NewClient_accepted NewClient_rejected GetConfig_def)

text \<open>
  The two literals of the test of \<^verbatim>\<open>NewClient\<close>: the invalid configuration, and the
  custom one.
\<close>

theorem NewClient_fails_fast_witness:
  "NewClient (redis_NewClient 2147483647) (Some zero_Config) =
     Inr (None,
       Some (WrapError ''invalid redis configuration: host is required'' ErrInvalidConfig)) \<and>
   (\<exists>cl. NewClient (redis_NewClient 2147483647) (Some (zero_Config
       \<lparr>Host := ''custom-host'', Port := ''1234'', Password := ''secret'', DB := 1,
        PoolSize := 20, MinIdleConns := 5, DefaultTimeout := 10 * Second\<rparr>)) =
       Inr (Some cl, None))"
proof -
  let ?good = "zero_Config
       \<lparr>Host := ''custom-host'', Port := ''1234'', Password := ''secret'', DB := 1,
        PoolSize := 20, MinIdleConns := 5, DefaultTimeout := 10 * Second\<rparr>"
  let ?new = "redis_NewClient 2147483647"
  have bad: "fst (Validate zero_Config) =
      Some (WrapError ''invalid redis configuration: host is required'' ErrInvalidConfig)"
    by (simp add: Validate_def Errorf_w_ErrInvalidConfig zero_Config_def)
  have good: "fst (Validate ?good) = None"
    by (simp add: Validate_accepts_iff zero_Config_def Second_def Millisecond_def
        Microsecond_def Nanosecond_def)
  have made: "?new (NewClient_Options ?good) = Inr (RedisClient (NewClient_Options ?good))"
    by (simp add: redis_NewClient_def NewClient_Options_def zero_Config_def)
  from NewClient_fails_fast [of zero_Config ?new] bad
  have 1: "NewClient ?new (Some zero_Config) =
     Inr (None,
       Some (WrapError ''invalid redis configuration: host is required'' ErrInvalidConfig))"
    by simp
  from NewClient_fails_fast [of ?good ?new "RedisClient (NewClient_Options ?good)"] good made
  have 2: "\<exists>cl. NewClient ?new (Some ?good) = Inr (Some cl, None)"
    by blast
  from 1 2 show ?thesis by blast
qed

text \<open>
  C7 as stated fails: the configuration with host \<^verbatim>\<open>localhost\<close>, port \<^verbatim>\<open>6379\<close>, a
  default timeout of 5s and the largest pool size that an \<^verbatim>\<open>int\<close> holds,
  \<open>2 ^ 63 - 1\<close>, passes \<^verbatim>\<open>Validate\<close>, and \<^verbatim>\<open>NewClient\<close> returns neither a client
  nor an error on it: the driver's constructor cannot make a pool of that size and panics.
\<close>

theorem NewClient_pool_size_counterexample:
  "fst (Validate (zero_Config
      \<lparr>Host := ''localhost'', Port := ''6379'', PoolSize := 9223372036854775807,
       DefaultTimeout := 5 * Second\<rparr>)) = None \<and>
   NewClient (redis_NewClient 2147483647) (Some (zero_Config
      \<lparr>Host := ''localhost'', Port := ''6379'', PoolSize := 9223372036854775807,
       DefaultTimeout := 5 * Second\<rparr>)) = Inl DriverPanic"
proof -
  let ?big = "zero_Config
      \<lparr>Host := ''localhost'', Port := ''6379'', PoolSize := 9223372036854775807,
       DefaultTimeout := 5 * Second\<rparr>"
  have ok: "fst (Validate ?big) = None"
    by (simp add: Validate_accepts_iff zero_Config_def Second_def Millisecond_def
        Microsecond_def Nanosecond_def)
  have "redis_NewClient 2147483647 (NewClient_Options ?big) = Inl DriverPanic"
    by (simp add: redis_NewClient_def NewClient_Options_def zero_Config_def)
  with ok show ?thesis
    by (simp add: NewClient_accepted)
qed

section \<open>HealthCheck\<close>

text \<open>
  C8, as amended. For every client whose driver handle and whose configuration are both
  non-\<^verbatim>\<open>nil\<close> (as they are in every client that \<^verbatim>\<open>NewClient\<close> returns),
  \<^verbatim>\<open>HealthCheck\<close> makes exactly one call of the driver, a \<^verbatim>\<open>Ping\<close> on that handle
  under a context whose timeout is the configuration's default timeout, and returns what
  that call answers.
\<close>

theorem HealthCheck_one_Ping:
  "Client c = Some rdb \<Longrightarrow> config c = Some cfg \<Longrightarrow>
     HealthCheck c d =
       (Inr (answer d (calls d) (PingCall rdb (WithTimeout Background (DefaultTimeout cfg)))),
        d\<lparr>calls := calls d @ [PingCall rdb (WithTimeout Background (DefaultTimeout cfg))]\<rparr>)"
  by (simp add: HealthCheck_def Ping_def Let_def)

text \<open>
  The client of \<^verbatim>\<open>NewClient(nil)\<close> against a driver that refuses every call: one
  \<^verbatim>\<open>Ping\<close> with a timeout of 5s, and the driver's error comes back.
\<close>

theorem HealthCheck_one_Ping_witness:
  "(\<exists>cl. NewClient (redis_NewClient 2147483647) None = Inr (Some cl, None) \<and>
      HealthCheck cl \<lparr>calls = [], answer = (\<lambda>h c. Some (DriverError ''connection refused''))\<rparr> =
        (Inr (Some (DriverError ''connection refused'')),
         \<lparr>calls = [PingCall (RedisClient (NewClient_Options DefaultConfig))
                     (WithTimeout Background (5 * Second))],
          answer = (\<lambda>h c. Some (DriverError ''connection refused''))\<rparr>))"
proof -
  let ?cl = "\<lparr> Client = Some (RedisClient (NewClient_Options DefaultConfig)),
               config = Some DefaultConfig \<rparr>"
  let ?d = "\<lparr>calls = [], answer = (\<lambda>h c. Some (DriverError ''connection refused''))\<rparr>"
  have new: "NewClient (redis_NewClient 2147483647) None = Inr (Some ?cl, None)"
    by (simp add: NewClient_nil NewClient_accepted Validate_DefaultConfig
        redis_NewClient_DefaultConfig)
  have dt: "DefaultTimeout DefaultConfig = 5 * Second"
    by (simp add: DefaultConfig_def)
  have "HealthCheck ?cl ?d =
        (Inr (Some (DriverError ''connection refused'')),
         \<lparr>calls = [PingCall (RedisClient (NewClient_Options DefaultConfig))
                     (WithTimeout Background (5 * Second))],
          answer = (\<lambda>h c. Some (DriverError ''connection refused''))\<rparr>)"
    using HealthCheck_one_Ping
      [of ?cl "RedisClient (NewClient_Options DefaultConfig)" DefaultConfig ?d]
    by (simp add: dt)
  with new show ?thesis by blast
qed

text \<open>
  C8 as stated fails: the client \<^verbatim>\<open>&Client{Client: rdb}\<close>, whose configuration is
  \<^verbatim>\<open>nil\<close>, has a driver handle, and \<^verbatim>\<open>HealthCheck\<close> panics on it before any call of
  the driver.
\<close>

theorem HealthCheck_nil_config_counterexample:
  "Client \<lparr> Client = Some (RedisClient (NewClient_Options DefaultConfig)), config = None \<rparr>
     \<noteq> None \<and>
   HealthCheck
     \<lparr> Client = Some (RedisClient (NewClient_Options DefaultConfig)), config = None \<rparr>
     \<lparr>calls = [], answer = (\<lambda>h c. None)\<rparr> =
     (Inl NilPointerDereference, \<lparr>calls = [], answer = (\<lambda>h c. None)\<rparr>)"
  by (simp add: HealthCheck_def)

section \<open>Validate has no effect\<close>

text \<open>
  C9. \<^verbatim>\<open>Validate\<close> leaves the configuration as it found it, so a second call returns
  what the first did; and its result is a function of the configuration alone, in fact of
  the four fields it reads: two configurations that agree on host, port, pool size and
  default timeout get the same result.
\<close>

theorem Validate_pure:
  "snd (Validate c) = c \<and>
   Validate (snd (Validate c)) = Validate c \<and>
   (Host c = Host c' \<and> Port c = Port c' \<and> PoolSize c = PoolSize c' \<and>
    DefaultTimeout c = DefaultTimeout c' \<longrightarrow> fst (Validate c) = fst (Validate c'))"
proof (intro conjI impI)
  show "snd (Validate c) = c"
    by (simp add: Validate_def)
  then show "Validate (snd (Validate c)) = Validate c"
    by simp
next
  assume "Host c = Host c' \<and> Port c = Port c' \<and> PoolSize c = PoolSize c' \<and>
    DefaultTimeout c = DefaultTimeout c'"
  then show "fst (Validate c) = fst (Validate c')"
    by (simp add: Validate_def)
qed

text \<open>
  The default configuration, and the default configuration with another password and
  minimum idle count.
\<close>

theorem Validate_pure_witness:
  "snd (Validate DefaultConfig) = DefaultConfig \<and>
   fst (Validate (DefaultConfig\<lparr>Password := ''secret'', MinIdleConns := 7\<rparr>)) =
     fst (Validate DefaultConfig)"
  using Validate_pure [of DefaultConfig "DefaultConfig\<lparr>Password := ''secret'', MinIdleConns := 7\<rparr>"]
  by simp

section \<open>The port\<close>

text \<open>
  C10. An empty port is enough for \<^verbatim>\<open>Validate\<close> to fail with an error that wraps
  \<^verbatim>\<open>ErrInvalidConfig\<close>; when the host is non-empty, the error is the one whose message
  is \<^verbatim>\<open>invalid redis configuration: port is required\<close>.
\<close>

theorem Validate_empty_port:
  "(Port c = '''' \<longrightarrow> (\<exists>e. fst (Validate c) = Some e \<and> errors_Is e ErrInvalidConfig)) \<and>
   (Host c \<noteq> '''' \<and> Port c = '''' \<longrightarrow>
      fst (Validate c) =
        Some (WrapError ''invalid redis configuration: port is required'' ErrInvalidConfig) \<and>
      errors_Is (WrapError ''invalid redis configuration: port is required'' ErrInvalidConfig)
        ErrInvalidConfig)"
  by (simp add: Validate_def Errorf_w_ErrInvalidConfig errors_Is_refl)

text \<open>The literal of the test "empty port".\<close>

theorem Validate_empty_port_witness:
  "Host (zero_Config \<lparr>Host := ''localhost'', PoolSize := 10, DefaultTimeout := 5 * Second\<rparr>) \<noteq> '''' \<and>
   Port (zero_Config \<lparr>Host := ''localhost'', PoolSize := 10, DefaultTimeout := 5 * Second\<rparr>) = '''' \<and>
   fst (Validate (zero_Config \<lparr>Host := ''localhost'', PoolSize := 10, DefaultTimeout := 5 * Second\<rparr>)) =
     Some (WrapError ''invalid redis configuration: port is required'' ErrInvalidConfig)"
  using Validate_empty_port
    [of "zero_Config \<lparr>Host := ''localhost'', PoolSize := 10, DefaultTimeout := 5 * Second\<rparr>"]
  by (simp add: zero_Config_def)

end
